theory Spec2Isabelle
  imports Main "HOL-Library.Word"
begin

section \<open>JavaScript values the server handles\<close>

text \<open>
  A JavaScript string is a sequence of UTF-16 code units. The string literals of
  \<^verbatim>\<open>server.js\<close> are ASCII and are injected with \<open>js_of\<close>.
\<close>

type_synonym js_string = "16 word list"

type_synonym byte = "8 word"

definition js_of :: "string \<Rightarrow> js_string" where
  "js_of s = map of_char s"

text \<open>
  The values a property read can give in the places where the handler reads one from
  a collaborator's result (\<^verbatim>\<open>pdfData.text\<close>, \<^verbatim>\<open>completion.text\<close>,
  \<^verbatim>\<open>error.message\<close>): \<^verbatim>\<open>undefined\<close>, \<^verbatim>\<open>null\<close> or a string.
\<close>

datatype js_value = Undefined | Null | Str js_string

fun truthy :: "js_value \<Rightarrow> bool" where
  "truthy Undefined = False"
| "truthy Null = False"
| "truthy (Str s) = (s \<noteq> [])"

text \<open>The operator \<^verbatim>\<open>a || b\<close>: the left operand when it is truthy, else the right one.\<close>

definition js_or :: "js_value \<Rightarrow> js_value \<Rightarrow> js_value" where
  "js_or a b = (if truthy a then a else b)"

text \<open>
  Thrown values are error objects: a name, the \<^verbatim>\<open>message\<close> property and the optional
  numeric \<^verbatim>\<open>status\<close> (or \<^verbatim>\<open>statusCode\<close>) property that the web framework reads.
\<close>

record js_error =
  name :: string
  message :: js_value
  err_status :: "nat option"

definition Error :: "string \<Rightarrow> js_error" where
  "Error m = \<lparr>name = ''Error'', message = Str (js_of m), err_status = None\<rparr>"

definition TypeError :: "string \<Rightarrow> js_error" where
  "TypeError m = \<lparr>name = ''TypeError'', message = Str (js_of m), err_status = None\<rparr>"

text \<open>
  \<^verbatim>\<open>String.prototype.trim\<close> strips the WhiteSpace and LineTerminator code points of
  ECMAScript from both ends.
\<close>

definition is_white_space :: "16 word \<Rightarrow> bool" where
  "is_white_space c \<longleftrightarrow>
     c = 0x9 \<or> c = 0xA \<or> c = 0xB \<or> c = 0xC \<or> c = 0xD \<or> c = 0x20 \<or> c = 0xA0 \<or>
     c = 0x1680 \<or> (0x2000 \<le> c \<and> c \<le> 0x200A) \<or> c = 0x2028 \<or> c = 0x2029 \<or>
     c = 0x202F \<or> c = 0x205F \<or> c = 0x3000 \<or> c = 0xFEFF"

definition trim :: "js_string \<Rightarrow> js_string" where
  "trim s = rev (dropWhile is_white_space (rev (dropWhile is_white_space s)))"

text \<open>
  The method call \<^verbatim>\<open>v.trim()\<close> on a value: on \<^verbatim>\<open>undefined\<close> and \<^verbatim>\<open>null\<close> the property
  read throws a TypeError.
\<close>

fun trim_method :: "js_value \<Rightarrow> js_error + js_string" where
  "trim_method (Str s) = Inr (trim s)"
| "trim_method Undefined = Inl (TypeError ''Cannot read properties of undefined'')"
| "trim_method Null = Inl (TypeError ''Cannot read properties of null'')"

section \<open>JSON values and HTTP responses\<close>

text \<open>
  The values \<^verbatim>\<open>JSON.parse\<close> produces and \<^verbatim>\<open>res.json\<close> serialises. Numbers are IEEE
  doubles in JavaScript; the server never computes with them, so their type is a
  parameter.
\<close>

datatype 'n json =
    JNull
  | JBool bool
  | JNumber 'n
  | JString js_string
  | JArray "'n json list"
  | JObject "(js_string \<times> 'n json) list"

text \<open>
  A response body is either the JSON document written by \<^verbatim>\<open>res.json\<close> or the error
  page written by the framework's built-in error handler.
\<close>

datatype 'n body = Json "'n json" | ErrorPage

record 'n response =
  status :: nat
  body :: "'n body"

text \<open>\<^verbatim>\<open>res.status(code).json(obj)\<close>\<close>

definition res_json :: "nat \<Rightarrow> 'n json \<Rightarrow> 'n response" where
  "res_json code obj = \<lparr>status = code, body = Json obj\<rparr>"

text \<open>
  An object literal with one property, as \<^verbatim>\<open>res.json\<close> writes it: a property whose
  value is \<^verbatim>\<open>undefined\<close> is left out of the document.
\<close>

fun json_object1 :: "js_string \<Rightarrow> js_value \<Rightarrow> 'n json" where
  "json_object1 k Undefined = JObject []"
| "json_object1 k Null = JObject [(k, JNull)]"
| "json_object1 k (Str s) = JObject [(k, JString s)]"

text \<open>The keys of a JSON body; no key when the body is not a JSON object.\<close>

fun body_keys :: "'n body \<Rightarrow> js_string list" where
  "body_keys (Json (JObject kvs)) = map fst kvs"
| "body_keys _ = []"

text \<open>The value under a key of a JSON body.\<close>

fun body_field :: "'n body \<Rightarrow> js_string \<Rightarrow> 'n json option" where
  "body_field (Json (JObject kvs)) k = map_of kvs k"
| "body_field _ k = None"

section \<open>Upload gate (multer configuration, lines 19--29)\<close>

text \<open>
  A file part of the multipart form, and the file object multer builds from it: the
  name of the form field, the filename the part gives (empty when it gives none), the
  declared MIME type and the content.
\<close>

record uploaded_file =
  fieldname :: js_string
  originalname :: js_string
  mimetype :: js_string
  buffer :: "byte list"

text \<open>
  A request to \<^verbatim>\<open>POST /analyze\<close>: the file parts of its multipart form, in the order
  they arrive. Text fields go to \<^verbatim>\<open>req.body\<close>, which the handler never reads; a request
  that is not multipart has no part.
\<close>

record request =
  file_parts :: "uploaded_file list"

text \<open>\<^verbatim>\<open>limits: { fileSize: 10 * 1024 * 1024 }\<close>\<close>

definition fileSize :: nat where
  "fileSize = 10 * 1024 * 1024"

text \<open>
  The \<^verbatim>\<open>fileFilter\<close> callback: \<open>Inl\<close> is \<^verbatim>\<open>cb(err)\<close>, \<open>Inr b\<close> is \<^verbatim>\<open>cb(null, b)\<close>.
\<close>

definition fileFilter :: "uploaded_file \<Rightarrow> js_error + bool" where
  "fileFilter f =
     (if mimetype f \<noteq> js_of ''application/pdf''
      then Inl (Error ''Only PDF files are allowed'')
      else Inr True)"

text \<open>
  The errors multer raises itself: when a file stream passes \<^verbatim>\<open>limits.fileSize\<close>, and
  when a file arrives under a field that expects no (further) file.
\<close>

datatype multer_code = LIMIT_FILE_SIZE | LIMIT_UNEXPECTED_FILE

definition MulterError :: "multer_code \<Rightarrow> js_error" where
  "MulterError code =
     \<lparr>name = ''MulterError'',
      message = Str (js_of (case code of
                              LIMIT_FILE_SIZE \<Rightarrow> ''File too large''
                            | LIMIT_UNEXPECTED_FILE \<Rightarrow> ''Unexpected field'')),
      err_status = None\<rparr>"

text \<open>
  \<^verbatim>\<open>upload.single("file")\<close> expects one file, under the field \<^verbatim>\<open>file\<close>. Multer puts
  its own check in front of the configured filter: \<open>filesLeft\<close> is the number of files
  the field \<^verbatim>\<open>file\<close> may still take, and every other field may take none.
\<close>

definition wrappedFileFilter :: "nat \<Rightarrow> uploaded_file \<Rightarrow> js_error + bool" where
  "wrappedFileFilter filesLeft f =
     (if fieldname f = js_of ''file'' \<and> 0 < filesLeft then fileFilter f
      else Inl (MulterError LIMIT_UNEXPECTED_FILE))"

text \<open>
  The file parts are handled as they arrive, with memory storage. A part without a
  filename is skipped. The filters run on the part's headers, before any byte of the
  file is read; the size limit is met while the file is read into memory (multer
  documents \<^verbatim>\<open>fileSize\<close> as the maximal file size). The first error ends the upload.
  \<open>stored\<close> is \<^verbatim>\<open>req.file\<close> so far.
\<close>

fun upload_parts ::
  "nat \<Rightarrow> uploaded_file list \<Rightarrow> uploaded_file option \<Rightarrow> js_error + uploaded_file option" where
  "upload_parts filesLeft [] stored = Inr stored"
| "upload_parts filesLeft (f # fs) stored =
     (if originalname f = [] then upload_parts filesLeft fs stored
      else
        (case wrappedFileFilter filesLeft f of
           Inl err \<Rightarrow> Inl err
         | Inr includeFile \<Rightarrow>
             if \<not> includeFile then upload_parts (filesLeft - 1) fs stored
             else if length (buffer f) > fileSize then Inl (MulterError LIMIT_FILE_SIZE)
             else upload_parts (filesLeft - 1) fs (Some f)))"

text \<open>
  The middleware \<^verbatim>\<open>upload.single("file")\<close>: \<open>Inl err\<close> is \<^verbatim>\<open>next(err)\<close>; \<open>Inr f\<close> is
  \<^verbatim>\<open>next()\<close> with \<^verbatim>\<open>req.file\<close> set to \<open>f\<close> (\<open>None\<close>: left undefined).
\<close>

definition upload_single :: "request \<Rightarrow> js_error + uploaded_file option" where
  "upload_single req = upload_parts 1 (file_parts req) None"

text \<open>
  \<^verbatim>\<open>server.js\<close> installs no error-handling middleware, so an error passed to
  \<^verbatim>\<open>next\<close> reaches the framework's built-in handler: the status is the error's own
  \<^verbatim>\<open>status\<close> when that is a 4xx or 5xx code and 500 otherwise, and the body is the
  framework's error page, not a JSON document.
\<close>

definition default_error_handler :: "js_error \<Rightarrow> 'n response" where
  "default_error_handler err =
     \<lparr>status = (case err_status err of
                  None \<Rightarrow> 500
                | Some s \<Rightarrow> if 400 \<le> s \<and> s < 600 then s else 500),
      body = ErrorPage\<rparr>"

section \<open>The analysis schema (lines 32--60)\<close>

datatype schema_type = OBJECT | NUMBER | STRING | ARRAY

datatype schema =
  Schema (stype: schema_type) (description: "string option")
    (properties: "(string \<times> schema) list") (items: "schema option")
    (propertyOrdering: "string list")

definition resumeAnalysisSchema :: schema where
  "resumeAnalysisSchema =
     Schema OBJECT None
       [(''ats_score'',
           Schema NUMBER
             (Some ''The Applicant Tracking System (ATS) compatibility score as a number between 0 and 100, where 100 is perfect compatibility.'')
             [] None []),
        (''structure'',
           Schema STRING
             (Some ''An evaluation of the resume's logical organization (e.g., clarity of sections, flow, use of headers).'')
             [] None []),
        (''format'',
           Schema STRING
             (Some ''A critique of the visual presentation, layout, and readability (e.g., font choice, white space, consistency).'')
             [] None []),
        (''keywords'',
           Schema ARRAY
             (Some ''A list of the top 5-10 relevant technical and soft skills/keywords found in the resume.'')
             [] (Some (Schema STRING None [] None [])) []),
        (''suggestions'',
           Schema ARRAY
             (Some ''Specific, actionable, and prioritized suggestions for improving the resume's content and presentation.'')
             [] (Some (Schema STRING None [] None [])) [])]
       None
       [''ats_score'', ''structure'', ''format'', ''keywords'', ''suggestions'']"

section \<open>Collaborators\<close>

text \<open>The result of \<^verbatim>\<open>parser.getText()\<close>; \<open>None\<close> when it has no \<^verbatim>\<open>text\<close> property.\<close>

record pdf_data =
  text_prop :: "js_value option"

text \<open>Reading \<^verbatim>\<open>pdfData.text\<close>: an absent property reads as \<^verbatim>\<open>undefined\<close>.\<close>

definition get_text :: "pdf_data \<Rightarrow> js_value" where
  "get_text pdfData = (case text_prop pdfData of None \<Rightarrow> Undefined | Some v \<Rightarrow> v)"

text \<open>The argument of \<^verbatim>\<open>ai.models.generateContent\<close> (lines 86--100).\<close>

record content =
  role :: string
  parts :: "js_string list"

record generation_config =
  systemInstruction :: string
  responseMimeType :: string
  responseSchema :: schema

record generate_request =
  model :: string
  contents :: "content list"
  config :: generation_config

text \<open>The result of the remote call; the handler reads its \<^verbatim>\<open>text\<close> property.\<close>

record completion =
  completion_text :: js_value

text \<open>
  The two collaborators act on the world outside the process (type \<open>'w\<close>): each call
  takes the world as it is and returns its result, \<open>Inl\<close> for a thrown error, with
  the world after the call. \<^verbatim>\<open>JSON.parse\<close> is the runtime's pure function; it takes
  any value and throws on what is not JSON text.
\<close>

record ('w, 'n) env =
  getText :: "byte list \<Rightarrow> 'w \<Rightarrow> (js_error + pdf_data) \<times> 'w"
  generateContent :: "generate_request \<Rightarrow> 'w \<Rightarrow> (js_error + completion) \<times> 'w"
  JSON_parse :: "js_value \<Rightarrow> js_error + 'n json"

text \<open>The collaborator invocations a request makes, in order.\<close>

datatype call = GetText "byte list" | GenerateContent generate_request

fun is_extraction :: "call \<Rightarrow> bool" where
  "is_extraction (GetText b) = True"
| "is_extraction (GenerateContent r) = False"

fun is_remote :: "call \<Rightarrow> bool" where
  "is_remote (GetText b) = False"
| "is_remote (GenerateContent r) = True"

record 'n outcome =
  response :: "'n response"
  calls :: "call list"

section \<open>The route handler (lines 64--118)\<close>

text \<open>The \<^verbatim>\<open>catch\<close> block, lines 113--117.\<close>

definition catch_block :: "js_error \<Rightarrow> 'n response" where
  "catch_block error =
     res_json 500
       (json_object1 (js_of ''error'')
          (js_or (message error)
             (Str (js_of ''An internal server error occurred during analysis.''))))"

text \<open>The request sent to the model for the extracted text, lines 86--100.\<close>

definition analysis_request :: "js_string \<Rightarrow> generate_request" where
  "analysis_request resumeText =
     \<lparr>model = ''gemini-2.5-flash'',
      contents = [\<lparr>role = ''user'', parts = [resumeText]\<rparr>],
      config =
        \<lparr>systemInstruction = ''You are an expert resume analyzer. Evaluate the provided resume text for structure, formatting, and relevant keywords. Crucially, calculate an Applicant Tracking System (ATS) compatibility score out of 100 based on the resume's clarity, sectioning, keyword density, and formatting. You MUST return your entire response as a single, valid JSON object strictly adhering to the defined schema. Do NOT include any introductory, explanatory, or concluding text outside of the JSON.'',
         responseMimeType = ''application/json'',
         responseSchema = resumeAnalysisSchema\<rparr>\<rparr>"

text \<open>
  While a request is handled, the state is the world together with the log of the
  collaborator calls made for it so far. The handler reaches a collaborator only through
  the two functions below (each \<^verbatim>\<open>await\<close> of the source), which make the call on the
  world and append it to the log; extraction stands for constructing the parser on the
  buffer and awaiting \<^verbatim>\<open>getText()\<close>.
\<close>

type_synonym 'w state = "'w \<times> call list"

definition call_getText ::
  "('w, 'n) env \<Rightarrow> byte list \<Rightarrow> 'w state \<Rightarrow> (js_error + pdf_data) \<times> 'w state" where
  "call_getText env data st =
     (case getText env data (fst st) of
        (result, w') \<Rightarrow> (result, (w', snd st @ [GetText data])))"

definition call_generateContent ::
  "('w, 'n) env \<Rightarrow> generate_request \<Rightarrow> 'w state \<Rightarrow> (js_error + completion) \<times> 'w state" where
  "call_generateContent env request st =
     (case generateContent env request (fst st) of
        (result, w') \<Rightarrow> (result, (w', snd st @ [GenerateContent request])))"

text \<open>
  The handler body, given \<^verbatim>\<open>req.file\<close>. Every throw inside \<^verbatim>\<open>try\<close> ends in
  \<open>catch_block\<close>. The \<^verbatim>\<open>console.log\<close> lines write to the process's log only and are
  left out.
\<close>

definition analyze_handler ::
  "('w, 'n) env \<Rightarrow> uploaded_file option \<Rightarrow> 'w state \<Rightarrow> 'n response \<times> 'w state" where
  "analyze_handler env file_opt st =
     (case file_opt of
        None \<Rightarrow>
          (res_json 400 (JObject [(js_of ''error'', JString (js_of ''No file uploaded''))]), st)
      | Some f \<Rightarrow>
          (case call_getText env (buffer f) st of
             (Inl error, st1) \<Rightarrow> (catch_block error, st1)
           | (Inr pdfData, st1) \<Rightarrow>
               (case trim_method (js_or (get_text pdfData) (Str [])) of
                  Inl error \<Rightarrow> (catch_block error, st1)
                | Inr resumeText \<Rightarrow>
                    if resumeText = [] then
                      (res_json 400
                         (JObject [(js_of ''error'',
                            JString (js_of ''No readable text found in PDF (the file might be an image scan).''))]),
                       st1)
                    else
                      (case call_generateContent env (analysis_request resumeText) st1 of
                         (Inl error, st2) \<Rightarrow> (catch_block error, st2)
                       | (Inr completion, st2) \<Rightarrow>
                           (case JSON_parse env (completion_text completion) of
                              Inl error \<Rightarrow> (catch_block error, st2)
                            | Inr analysis \<Rightarrow>
                                (res_json 200 (JObject [(js_of ''analysis'', analysis)]), st2))))))"

text \<open>
  The route \<^verbatim>\<open>app.post("/analyze", upload.single("file"), handler)\<close>: the handler
  runs only when the upload middleware calls \<^verbatim>\<open>next()\<close> without an error. The outcome of
  a request is its response with the collaborator calls made for it; the world goes on
  to the next request.
\<close>

definition post_analyze :: "('w, 'n) env \<Rightarrow> request \<Rightarrow> 'w \<Rightarrow> 'n outcome \<times> 'w" where
  "post_analyze env req w =
     (case upload_single req of
        Inl err \<Rightarrow> (\<lparr>response = default_error_handler err, calls = []\<rparr>, w)
      | Inr file_opt \<Rightarrow>
          (case analyze_handler env file_opt (w, []) of
             (res, (w', log)) \<Rightarrow> (\<lparr>response = res, calls = log\<rparr>, w')))"

text \<open>Requests served one after the other by the same process.\<close>

fun serve :: "('w, 'n) env \<Rightarrow> request list \<Rightarrow> 'w \<Rightarrow> 'n outcome list \<times> 'w" where
  "serve env [] w = ([], w)"
| "serve env (req # reqs) w =
     (case post_analyze env req w of
        (out, w1) \<Rightarrow> (case serve env reqs w1 of (outs, w2) \<Rightarrow> (out # outs, w2)))"

text \<open>
  Collaborators are deterministic when the result of a call depends on its argument
  only, not on the world it is made in.
\<close>

definition deterministic :: "('w, 'n) env \<Rightarrow> bool" where
  "deterministic env \<longleftrightarrow>
     (\<forall>b w w'. fst (getText env b w) = fst (getText env b w')) \<and>
     (\<forall>r w w'. fst (generateContent env r w) = fst (generateContent env r w'))"

section \<open>Deterministic stand-ins for the collaborators\<close>

text \<open>
  Stand-ins used to run the handler on concrete requests. The world is the number of
  collaborator calls made so far; extraction returns a fixed \<^verbatim>\<open>text\<close> property, the
  remote call a fixed result, and \<^verbatim>\<open>JSON.parse\<close> knows one document.
\<close>

definition SyntaxError :: "string \<Rightarrow> js_error" where
  "SyntaxError m = \<lparr>name = ''SyntaxError'', message = Str (js_of m), err_status = None\<rparr>"

definition stub_json :: js_string where
  \<open>stub_json = js_of ''{"ats_score":87,"structure":"Clear sections","format":"Consistent layout","keywords":["Isabelle","JavaScript"],"suggestions":["Add metrics"]}''\<close>

definition stub_analysis :: "nat json" where
  "stub_analysis =
     JObject
       [(js_of ''ats_score'', JNumber 87),
        (js_of ''structure'', JString (js_of ''Clear sections'')),
        (js_of ''format'', JString (js_of ''Consistent layout'')),
        (js_of ''keywords'', JArray [JString (js_of ''Isabelle''), JString (js_of ''JavaScript'')]),
        (js_of ''suggestions'', JArray [JString (js_of ''Add metrics'')])]"

definition stub_env :: "js_value option \<Rightarrow> js_error + completion \<Rightarrow> (nat, nat) env" where
  "stub_env pdf_text remote =
     \<lparr>getText = (\<lambda>b w. (Inr \<lparr>text_prop = pdf_text\<rparr>, Suc w)),
      generateContent = (\<lambda>r w. (remote, Suc w)),
      JSON_parse = (\<lambda>v. if v = Str stub_json then Inr stub_analysis
                         else Inl (SyntaxError ''Unexpected token''))\<rparr>"

definition pdf_file :: "byte list \<Rightarrow> uploaded_file" where
  "pdf_file bytes =
     \<lparr>fieldname = js_of ''file'', originalname = js_of ''resume.pdf'',
      mimetype = js_of ''application/pdf'', buffer = bytes\<rparr>"

definition pdf_request :: "byte list \<Rightarrow> request" where
  "pdf_request bytes = \<lparr>file_parts = [pdf_file bytes]\<rparr>"

definition sample_bytes :: "byte list" where
  "sample_bytes = [0x25, 0x50, 0x44, 0x46, 0x2D, 0x31, 0x2E, 0x37]"

text \<open>The remote call answers with the one document \<^verbatim>\<open>JSON.parse\<close> knows.\<close>

definition stub_ok :: "js_value option \<Rightarrow> (nat, nat) env" where
  "stub_ok pdf_text = stub_env pdf_text (Inr \<lparr>completion_text = Str stub_json\<rparr>)"

text \<open>
  An error as the remote service's client throws it, carrying a status of its own, and
  the stand-in whose remote call throws a given error.
\<close>

definition api_error :: js_error where
  "api_error =
     \<lparr>name = ''ApiError'', message = Str (js_of ''quota exceeded''), err_status = Some 429\<rparr>"

definition stub_failing :: "js_error \<Rightarrow> (nat, nat) env" where
  "stub_failing e = stub_env (Some (Str (js_of '' Jane Doe ''))) (Inl e)"

text \<open>The same upload declared as plain text.\<close>

definition text_file :: "byte list \<Rightarrow> uploaded_file" where
  "text_file bytes =
     \<lparr>fieldname = js_of ''file'', originalname = js_of ''resume.txt'',
      mimetype = js_of ''text/plain'', buffer = bytes\<rparr>"

definition text_request :: "byte list \<Rightarrow> request" where
  "text_request bytes = \<lparr>file_parts = [text_file bytes]\<rparr>"

section \<open>Facts about the stages\<close>


lemma upload_parts_stored:
  "upload_parts filesLeft fs stored = Inr (Some f) \<Longrightarrow>
   stored = Some f \<or>
   (f \<in> set fs \<and> originalname f \<noteq> [] \<and> fieldname f = js_of ''file'' \<and>
    mimetype f = js_of ''application/pdf'' \<and> length (buffer f) \<le> fileSize)"
proof (induction fs arbitrary: filesLeft stored)
  case Nil
  then show ?case by simp
next
  case (Cons p ps)
  show ?case
  proof (cases "originalname p = []")
    case True
    with Cons.prems have "upload_parts filesLeft ps stored = Inr (Some f)"
      by simp
    from Cons.IH [OF this] show ?thesis by auto
  next
    case False
    with Cons.prems have ok: "fieldname p = js_of ''file''" "mimetype p = js_of ''application/pdf''"
      "length (buffer p) \<le> fileSize"
      and rest: "upload_parts (filesLeft - 1) ps (Some p) = Inr (Some f)"
      by (auto simp add: wrappedFileFilter_def fileFilter_def split: if_splits)
    from Cons.IH [OF rest] False ok show ?thesis by auto
  qed
qed

lemma upload_single_stored:
  "upload_single req = Inr (Some f) \<Longrightarrow>
   f \<in> set (file_parts req) \<and> originalname f \<noteq> [] \<and> fieldname f = js_of ''file'' \<and>
   mimetype f = js_of ''application/pdf'' \<and> length (buffer f) \<le> fileSize"
  using upload_parts_stored [of 1 "file_parts req" None f] by (simp add: upload_single_def)

lemma upload_single_accepts:
  "file_parts req = [f] \<Longrightarrow> originalname f \<noteq> [] \<Longrightarrow> fieldname f = js_of ''file'' \<Longrightarrow>
   mimetype f = js_of ''application/pdf'' \<Longrightarrow> length (buffer f) \<le> fileSize \<Longrightarrow>
   upload_single req = Inr (Some f)"
  by (simp add: upload_single_def wrappedFileFilter_def fileFilter_def)


lemma upload_single_unexpected_field:
  "file_parts req = f # fs \<Longrightarrow> originalname f \<noteq> [] \<Longrightarrow> fieldname f \<noteq> js_of ''file'' \<Longrightarrow>
   upload_single req = Inl (MulterError LIMIT_UNEXPECTED_FILE)"
  by (simp add: upload_single_def wrappedFileFilter_def)

lemma upload_single_wrong_type:
  "file_parts req = f # fs \<Longrightarrow> originalname f \<noteq> [] \<Longrightarrow> fieldname f = js_of ''file'' \<Longrightarrow>
   mimetype f \<noteq> js_of ''application/pdf'' \<Longrightarrow>
   upload_single req = Inl (Error ''Only PDF files are allowed'')"
  by (simp add: upload_single_def wrappedFileFilter_def fileFilter_def)

lemma upload_single_too_large:
  "file_parts req = f # fs \<Longrightarrow> originalname f \<noteq> [] \<Longrightarrow> fieldname f = js_of ''file'' \<Longrightarrow>
   mimetype f = js_of ''application/pdf'' \<Longrightarrow> length (buffer f) > fileSize \<Longrightarrow>
   upload_single req = Inl (MulterError LIMIT_FILE_SIZE)"
  by (simp add: upload_single_def wrappedFileFilter_def fileFilter_def)

text \<open>
  An error of the upload middleware never reaches the route handler: the framework's
  built-in error handler answers, no collaborator is invoked and the world is left as it
  was. None of the errors the middleware raises carries a status, so the answer is 500
  with the error page.
\<close>

lemma upload_error_response:
  "upload_single req = Inl err \<Longrightarrow>
   post_analyze env req w = (\<lparr>response = default_error_handler err, calls = []\<rparr>, w)"
  by (simp add: post_analyze_def)

lemma upload_error_status:
  "upload_single req = Inl err \<Longrightarrow> err_status err = None"
proof -
  have "upload_parts filesLeft fs stored = Inl err \<Longrightarrow> err_status err = None"
    for filesLeft fs stored
    by (induction fs arbitrary: filesLeft stored)
      (auto simp add: wrappedFileFilter_def fileFilter_def MulterError_def Error_def
        split: if_splits)
  then show "upload_single req = Inl err \<Longrightarrow> err_status err = None"
    by (simp add: upload_single_def)
qed

text \<open>
  \<^verbatim>\<open>(pdfData.text || "").trim()\<close> never throws: the operand of \<^verbatim>\<open>trim\<close> is a string
  whatever the property holds.
\<close>

lemma resume_text_cases:
  "trim_method (js_or v (Str [])) = Inr (case v of Str s \<Rightarrow> trim s | _ \<Rightarrow> [])"
  by (cases v) (simp_all add: js_or_def trim_def)

lemma catch_block_response:
  "catch_block e =
     \<lparr>status = 500,
      body = Json (JObject [(js_of ''error'',
        JString (case message e of
                   Str m \<Rightarrow> if m = [] then js_of ''An internal server error occurred during analysis.'' else m
                 | _ \<Rightarrow> js_of ''An internal server error occurred during analysis.''))])\<rparr>"
  by (cases "message e") (simp_all add: catch_block_def res_json_def js_or_def js_of_def)

lemma key_analysis_neq_error: "js_of ''analysis'' \<noteq> js_of ''error''"
  by (simp add: js_of_def)

lemma calls_post_analyze:
  "c \<in> set (calls (fst (post_analyze env req w))) \<Longrightarrow>
   (\<exists>b. c = GetText b) \<or> (\<exists>t. c = GenerateContent (analysis_request t))"
  by (auto simp add: post_analyze_def analyze_handler_def call_getText_def call_generateContent_def
      split: sum.splits option.splits prod.splits if_splits)

lemma upload_error_answered_500:
  assumes "upload_single req = Inl err"
  shows "post_analyze env req w = (\<lparr>response = \<lparr>status = 500, body = ErrorPage\<rparr>, calls = []\<rparr>, w)"
  using upload_error_response [OF assms] upload_error_status [OF assms]
  by (simp add: default_error_handler_def)

text \<open>
  A file under any other field than \<^verbatim>\<open>file\<close> is such an error, whatever its type and
  size: the form is not taken for one without a file.
\<close>

lemma unexpected_field_answered_500:
  assumes "file_parts req = f # fs"
      and "originalname f \<noteq> []"
      and "fieldname f \<noteq> js_of ''file''"
  shows "post_analyze env req w = (\<lparr>response = \<lparr>status = 500, body = ErrorPage\<rparr>, calls = []\<rparr>, w)"
  by (rule upload_error_answered_500 [OF upload_single_unexpected_field [OF assms]])

text \<open>A response with status 200 comes with an extraction call and a remote call.\<close>

lemma success_needs_both_calls:
  assumes "status (response (fst (post_analyze env req w))) = 200"
  shows "list_ex is_extraction (calls (fst (post_analyze env req w))) \<and>
         list_ex is_remote (calls (fst (post_analyze env req w)))"
proof (cases "upload_single req")
  case (Inl err)
  from upload_error_answered_500 [OF Inl, of env w] assms show ?thesis
    by simp
next
  case (Inr file_opt)
  note up = this
  show ?thesis
  proof (cases file_opt)
    case None
    with up assms show ?thesis
      by (simp add: post_analyze_def analyze_handler_def res_json_def)
  next
    case (Some f)
    obtain r1 w1 where ex: "getText env (buffer f) w = (r1, w1)"
      by (cases "getText env (buffer f) w")
    show ?thesis
    proof (cases r1)
      case (Inl e)
      with up Some ex assms show ?thesis
        by (simp add: post_analyze_def analyze_handler_def call_getText_def catch_block_response)
    next
      case (Inr pdfData)
      note pd = this
      define t where "t = (case get_text pdfData of Str s \<Rightarrow> trim s | _ \<Rightarrow> [])"
      show ?thesis
      proof (cases "t = []")
        case True
        with up Some ex pd assms show ?thesis
          by (simp add: post_analyze_def analyze_handler_def call_getText_def resume_text_cases
              res_json_def t_def)
      next
        case False
        obtain r2 w2 where gen: "generateContent env (analysis_request t) w1 = (r2, w2)"
          by (cases "generateContent env (analysis_request t) w1")
        show ?thesis
        proof (cases r2)
          case (Inl e)
          with up Some ex pd False gen assms show ?thesis
            by (simp add: post_analyze_def analyze_handler_def call_getText_def
                call_generateContent_def resume_text_cases catch_block_response t_def)
        next
          case (Inr completion)
          with up Some ex pd False gen show ?thesis
            by (simp add: post_analyze_def analyze_handler_def call_getText_def
                call_generateContent_def resume_text_cases t_def split: sum.splits)
        qed
      qed
    qed
  qed
qed

text \<open>
  With deterministic collaborators the outcome of a request does not depend on the
  world it is served in, so not on the requests served before it.
\<close>

lemma post_analyze_world_independent:
  assumes "deterministic env"
  shows "fst (post_analyze env req w) = fst (post_analyze env req w')"
proof -
  from assms have g: "\<And>b. fst (getText env b w) = fst (getText env b w')"
    and h: "\<And>r v v'. fst (generateContent env r v) = fst (generateContent env r v')"
    by (auto simp add: deterministic_def)
  show ?thesis
  proof (cases "upload_single req")
    case (Inl err)
    then show ?thesis by (simp add: post_analyze_def)
  next
    case (Inr file_opt)
    note up = this
    show ?thesis
    proof (cases file_opt)
      case None
      with up show ?thesis by (simp add: post_analyze_def analyze_handler_def call_getText_def call_generateContent_def)
    next
      case (Some f)
      obtain r1 w1 where a: "getText env (buffer f) w = (r1, w1)"
        by (cases "getText env (buffer f) w")
      obtain r1' w1' where a': "getText env (buffer f) w' = (r1', w1')"
        by (cases "getText env (buffer f) w'")
      from g [of "buffer f"] a a' have r1: "r1' = r1" by simp
      show ?thesis
      proof (cases r1)
        case (Inl e)
        with up Some a a' r1 show ?thesis
          by (simp add: post_analyze_def analyze_handler_def call_getText_def call_generateContent_def)
      next
        case (Inr pdfData)
        define t where "t = (case get_text pdfData of Str s \<Rightarrow> trim s | _ \<Rightarrow> [])"
        obtain r2 w2 where b: "generateContent env (analysis_request t) w1 = (r2, w2)"
          by (cases "generateContent env (analysis_request t) w1")
        obtain r2' w2' where b': "generateContent env (analysis_request t) w1' = (r2', w2')"
          by (cases "generateContent env (analysis_request t) w1'")
        from h [of "analysis_request t" w1 w1'] b b' have r2: "r2' = r2" by simp
        from up Some a a' r1 Inr b b' r2 show ?thesis
          by (simp add: post_analyze_def analyze_handler_def call_getText_def call_generateContent_def resume_text_cases t_def
              split: sum.splits)
      qed
    qed
  qed
qed

subsection \<open>The stand-ins at work\<close>

lemma trim_sample: "trim (js_of '' Jane Doe '') = js_of ''Jane Doe''"
  by (simp add: trim_def js_of_def is_white_space_def)

lemma trim_blank: "trim (js_of ''   '') = []"
  by (simp add: trim_def js_of_def is_white_space_def)

lemma sample_text_nonempty: "js_of ''Jane Doe'' \<noteq> []"
  by (simp add: js_of_def)

lemma sample_size: "length sample_bytes \<le> fileSize"
  by (simp add: sample_bytes_def fileSize_def)

lemma sample_upload: "upload_single (pdf_request sample_bytes) = Inr (Some (pdf_file sample_bytes))"
  by (rule upload_single_accepts)
    (simp_all add: pdf_request_def pdf_file_def sample_size js_of_def)

lemma stub_deterministic: "deterministic (stub_env pdf_text remote)"
  by (simp add: deterministic_def stub_env_def)

lemma stub_ok_run:
  "post_analyze (stub_ok (Some (Str (js_of '' Jane Doe '')))) (pdf_request sample_bytes) w =
     (\<lparr>response = \<lparr>status = 200, body = Json (JObject [(js_of ''analysis'', stub_analysis)])\<rparr>,
       calls = [GetText sample_bytes, GenerateContent (analysis_request (js_of ''Jane Doe''))]\<rparr>,
      Suc (Suc w))"
  by (simp add: post_analyze_def sample_upload analyze_handler_def call_getText_def call_generateContent_def stub_ok_def stub_env_def
      get_text_def resume_text_cases trim_sample sample_text_nonempty res_json_def pdf_file_def)

lemma stub_blank_run:
  "post_analyze (stub_ok (Some (Str (js_of ''   '')))) (pdf_request sample_bytes) w =
     (\<lparr>response = \<lparr>status = 400,
          body = Json (JObject [(js_of ''error'',
            JString (js_of ''No readable text found in PDF (the file might be an image scan).''))])\<rparr>,
       calls = [GetText sample_bytes]\<rparr>,
      Suc w)"
  by (simp add: post_analyze_def sample_upload analyze_handler_def call_getText_def call_generateContent_def stub_ok_def stub_env_def
      get_text_def resume_text_cases trim_blank res_json_def pdf_file_def)

lemma stub_failing_run:
  "post_analyze (stub_failing e) (pdf_request sample_bytes) w =
     (\<lparr>response = catch_block e,
       calls = [GetText sample_bytes, GenerateContent (analysis_request (js_of ''Jane Doe''))]\<rparr>,
      Suc (Suc w))"
  by (simp add: post_analyze_def sample_upload analyze_handler_def call_getText_def call_generateContent_def stub_failing_def stub_env_def
      get_text_def resume_text_cases trim_sample sample_text_nonempty pdf_file_def)

lemma fallback_nonempty: "js_of ''An internal server error occurred during analysis.'' \<noteq> []"
  by (simp add: js_of_def)

section \<open>The claims\<close>

text \<open>
  C1. For every request carrying a PDF (a file the upload gate passes on to the handler)
  whose extracted text is non-empty after trimming, when the remote call returns a
  completion whose text \<^verbatim>\<open>JSON.parse\<close> accepts, the response has status 200 and its
  body is the object with the single key \<^verbatim>\<open>analysis\<close> holding the parsed value itself,
  untransformed. This holds for every parsed value, so for every object of the shape
  of \<open>resumeAnalysisSchema\<close>.
\<close>

theorem success_passes_analysis_through:
  assumes "upload_single req = Inr (Some f)"
      and "getText env (buffer f) w = (Inr pdfData, w1)"
      and "get_text pdfData = Str s"
      and "trim s \<noteq> []"
      and "generateContent env (analysis_request (trim s)) w1 = (Inr completion, w2)"
      and "JSON_parse env (completion_text completion) = Inr analysis"
  shows "status (response (fst (post_analyze env req w))) = 200 \<and>
         body (response (fst (post_analyze env req w))) =
           Json (JObject [(js_of ''analysis'', analysis)])"
  using assms
  by (simp add: post_analyze_def analyze_handler_def call_getText_def call_generateContent_def resume_text_cases
      res_json_def)

theorem success_passes_analysis_through_witness:
  "upload_single (pdf_request sample_bytes) = Inr (Some (pdf_file sample_bytes)) \<and>
   getText (stub_ok (Some (Str (js_of '' Jane Doe '')))) (buffer (pdf_file sample_bytes)) 0 =
     (Inr \<lparr>text_prop = Some (Str (js_of '' Jane Doe ''))\<rparr>, 1) \<and>
   trim (js_of '' Jane Doe '') \<noteq> [] \<and>
   generateContent (stub_ok (Some (Str (js_of '' Jane Doe ''))))
       (analysis_request (trim (js_of '' Jane Doe ''))) 1 =
     (Inr \<lparr>completion_text = Str stub_json\<rparr>, 2) \<and>
   JSON_parse (stub_ok (Some (Str (js_of '' Jane Doe '')))) (Str stub_json) = Inr stub_analysis \<and>
   status (response (fst (post_analyze (stub_ok (Some (Str (js_of '' Jane Doe ''))))
      (pdf_request sample_bytes) 0))) = 200 \<and>
   body (response (fst (post_analyze (stub_ok (Some (Str (js_of '' Jane Doe ''))))
      (pdf_request sample_bytes) 0))) = Json (JObject [(js_of ''analysis'', stub_analysis)])"
proof -
  let ?env = "stub_ok (Some (Str (js_of '' Jane Doe '')))"
  note 1 = sample_upload
  have 4: "getText ?env (buffer (pdf_file sample_bytes)) 0 =
      (Inr \<lparr>text_prop = Some (Str (js_of '' Jane Doe ''))\<rparr>, 1)"
    by (simp add: stub_ok_def stub_env_def)
  have 5: "get_text \<lparr>text_prop = Some (Str (js_of '' Jane Doe ''))\<rparr> = Str (js_of '' Jane Doe '')"
    by (simp add: get_text_def)
  have 6: "trim (js_of '' Jane Doe '') \<noteq> []"
    by (simp add: trim_sample sample_text_nonempty)
  have 7: "generateContent ?env (analysis_request (trim (js_of '' Jane Doe ''))) 1 =
      (Inr \<lparr>completion_text = Str stub_json\<rparr>, 2)"
    by (simp add: stub_ok_def stub_env_def)
  have 8: "JSON_parse ?env (completion_text \<lparr>completion_text = Str stub_json\<rparr>) = Inr stub_analysis"
    by (simp add: stub_ok_def stub_env_def)
  have 9: "JSON_parse ?env (Str stub_json) = Inr stub_analysis"
    using 8 by simp
  note concl = success_passes_analysis_through [OF 1 4 5 6 7 8]
  from 1 4 6 7 9 concl show ?thesis by blast
qed

text \<open>
  C2. The claim is that every request whose uploaded file has a declared MIME type
  different from \<^verbatim>\<open>application/pdf\<close> is answered with status 400, extraction never
  being invoked. The code keeps the second half and breaks the first. A \<^verbatim>\<open>text/plain\<close>
  upload under the field \<^verbatim>\<open>file\<close> is rejected by the file filter with the client-facing
  error \<^verbatim>\<open>Only PDF files are allowed\<close>, and neither collaborator is invoked; but nothing
  in \<^verbatim>\<open>server.js\<close> turns that error into a response, so the framework's built-in
  handler answers with status 500 and its error page, where the handler's own client
  errors (no file, no readable text) answer 400 with a JSON body.
\<close>

theorem wrong_type_answered_500:
  "mimetype (text_file sample_bytes) \<noteq> js_of ''application/pdf'' \<and>
   upload_single (text_request sample_bytes) = Inl (Error ''Only PDF files are allowed'') \<and>
   post_analyze (stub_ok (Some (Str (js_of '' Jane Doe '')))) (text_request sample_bytes) 0 =
     (\<lparr>response = \<lparr>status = 500, body = ErrorPage\<rparr>, calls = []\<rparr>, 0)"
proof -
  have 1: "mimetype (text_file sample_bytes) \<noteq> js_of ''application/pdf''"
    by (simp add: text_file_def js_of_def)
  have 2: "upload_single (text_request sample_bytes) = Inl (Error ''Only PDF files are allowed'')"
    by (rule upload_single_wrong_type [where f = "text_file sample_bytes" and fs = "[]"])
      (simp_all add: text_request_def text_file_def js_of_def)
  from 1 2 upload_error_answered_500 [OF 2, of "stub_ok (Some (Str (js_of '' Jane Doe '')))" 0]
  show ?thesis by blast
qed

text \<open>
  C3. The claim is that every request whose uploaded file exceeds 10 MiB
  (\<open>10 * 1024 * 1024\<close> bytes) is answered with status 400, extraction never being
  invoked. The code keeps the second half and breaks the first. A PDF of 10 MiB and one
  byte under the field \<^verbatim>\<open>file\<close> is rejected by multer with its size-limit error, and
  neither collaborator is invoked; but nothing in \<^verbatim>\<open>server.js\<close> turns that error into
  a response, so the framework's built-in handler answers with status 500 and its error
  page, where the handler's own client errors answer 400 with a JSON body.
\<close>

theorem oversized_answered_500:
  "length (buffer (pdf_file (replicate 10485761 0))) > 10 * 1024 * 1024 \<and>
   upload_single (pdf_request (replicate 10485761 0)) = Inl (MulterError LIMIT_FILE_SIZE) \<and>
   post_analyze (stub_ok (Some (Str (js_of '' Jane Doe '')))) (pdf_request (replicate 10485761 0)) 0 =
     (\<lparr>response = \<lparr>status = 500, body = ErrorPage\<rparr>, calls = []\<rparr>, 0)"
proof -
  have 1: "length (buffer (pdf_file (replicate 10485761 0))) > 10 * 1024 * 1024"
    by (simp add: pdf_file_def)
  have 2: "upload_single (pdf_request (replicate 10485761 0)) = Inl (MulterError LIMIT_FILE_SIZE)"
    by (rule upload_single_too_large [where f = "pdf_file (replicate 10485761 0)" and fs = "[]"])
      (simp_all add: pdf_request_def pdf_file_def fileSize_def js_of_def)
  from 1 2 upload_error_answered_500 [OF 2, of "stub_ok (Some (Str (js_of '' Jane Doe '')))" 0]
  show ?thesis by blast
qed

text \<open>
  C4. For every request with a PDF that the upload gate passes on, that the extraction
  collaborator parses and whose extracted text is empty after trimming, the response has status 400 and the
  error message \<^verbatim>\<open>No readable text found in PDF (the file might be an image scan).\<close>;
  the remote model service is never invoked, and the world is as extraction left it.
\<close>

theorem no_readable_text_is_client_error:
  assumes "upload_single req = Inr (Some f)"
      and "getText env (buffer f) w = (Inr pdfData, w1)"
      and "get_text pdfData = Str s"
      and "trim s = []"
  shows "status (response (fst (post_analyze env req w))) = 400 \<and>
         body (response (fst (post_analyze env req w))) =
           Json (JObject [(js_of ''error'',
             JString (js_of ''No readable text found in PDF (the file might be an image scan).''))]) \<and>
         \<not> list_ex is_remote (calls (fst (post_analyze env req w))) \<and>
         snd (post_analyze env req w) = w1"
  using assms
  by (simp add: post_analyze_def analyze_handler_def call_getText_def call_generateContent_def resume_text_cases
      res_json_def)

theorem no_readable_text_is_client_error_witness:
  "getText (stub_ok (Some (Str (js_of ''   '')))) (buffer (pdf_file sample_bytes)) 0 =
     (Inr \<lparr>text_prop = Some (Str (js_of ''   ''))\<rparr>, 1) \<and>
   trim (js_of ''   '') = [] \<and>
   status (response (fst (post_analyze (stub_ok (Some (Str (js_of ''   ''))))
       (pdf_request sample_bytes) 0))) = 400 \<and>
   body (response (fst (post_analyze (stub_ok (Some (Str (js_of ''   ''))))
       (pdf_request sample_bytes) 0))) =
     Json (JObject [(js_of ''error'',
       JString (js_of ''No readable text found in PDF (the file might be an image scan).''))]) \<and>
   \<not> list_ex is_remote (calls (fst (post_analyze (stub_ok (Some (Str (js_of ''   ''))))
       (pdf_request sample_bytes) 0))) \<and>
   snd (post_analyze (stub_ok (Some (Str (js_of ''   '')))) (pdf_request sample_bytes) 0) = 1"
proof -
  let ?env = "stub_ok (Some (Str (js_of ''   '')))"
  note 1 = sample_upload
  have 4: "getText ?env (buffer (pdf_file sample_bytes)) 0 =
      (Inr \<lparr>text_prop = Some (Str (js_of ''   ''))\<rparr>, 1)"
    by (simp add: stub_ok_def stub_env_def)
  have 5: "get_text \<lparr>text_prop = Some (Str (js_of ''   ''))\<rparr> = Str (js_of ''   '')"
    by (simp add: get_text_def)
  note concl = no_readable_text_is_client_error [OF 1 4 5 trim_blank]
  from 4 trim_blank concl show ?thesis by blast
qed

text \<open>
  C5 (as amended). For every request that reaches the remote call (a PDF passed on by
  the upload gate, non-empty trimmed text), when the remote-service collaborator throws, or returns a
  completion whose text \<^verbatim>\<open>JSON.parse\<close> rejects, the response has status 500 whatever
  status the error carries, and its body is the object with the single key
  \<^verbatim>\<open>error\<close>: the message of the error when that is a non-empty string, and the fixed
  text \<^verbatim>\<open>An internal server error occurred during analysis.\<close> otherwise. The body has
  no \<^verbatim>\<open>analysis\<close> key.
\<close>

theorem remote_failure_is_server_error:
  assumes "upload_single req = Inr (Some f)"
      and "getText env (buffer f) w = (Inr pdfData, w1)"
      and "get_text pdfData = Str s"
      and "trim s \<noteq> []"
      and "generateContent env (analysis_request (trim s)) w1 = (Inl e, w2) \<or>
           (\<exists>completion.
              generateContent env (analysis_request (trim s)) w1 = (Inr completion, w2) \<and>
              JSON_parse env (completion_text completion) = Inl e)"
  shows "status (response (fst (post_analyze env req w))) = 500 \<and>
         body (response (fst (post_analyze env req w))) =
           Json (JObject [(js_of ''error'',
             JString (case message e of
                        Str m \<Rightarrow>
                          if m = [] then js_of ''An internal server error occurred during analysis.''
                          else m
                      | _ \<Rightarrow> js_of ''An internal server error occurred during analysis.''))]) \<and>
         js_of ''analysis'' \<notin> set (body_keys (body (response (fst (post_analyze env req w)))))"
  using assms key_analysis_neq_error
  by (auto simp add: post_analyze_def analyze_handler_def call_getText_def call_generateContent_def resume_text_cases
      catch_block_response)

theorem remote_failure_is_server_error_witness:
  "generateContent (stub_failing api_error) (analysis_request (trim (js_of '' Jane Doe ''))) 1 =
     (Inl api_error, 2) \<and>
   status (response (fst (post_analyze (stub_failing api_error) (pdf_request sample_bytes) 0))) = 500 \<and>
   body (response (fst (post_analyze (stub_failing api_error) (pdf_request sample_bytes) 0))) =
     Json (JObject [(js_of ''error'', JString (js_of ''quota exceeded''))]) \<and>
   js_of ''analysis'' \<notin>
     set (body_keys (body (response (fst (post_analyze (stub_failing api_error)
       (pdf_request sample_bytes) 0)))))"
proof -
  let ?env = "stub_failing api_error"
  note 1 = sample_upload
  have 4: "getText ?env (buffer (pdf_file sample_bytes)) 0 =
      (Inr \<lparr>text_prop = Some (Str (js_of '' Jane Doe ''))\<rparr>, 1)"
    by (simp add: stub_failing_def stub_env_def)
  have 5: "get_text \<lparr>text_prop = Some (Str (js_of '' Jane Doe ''))\<rparr> = Str (js_of '' Jane Doe '')"
    by (simp add: get_text_def)
  have 6: "trim (js_of '' Jane Doe '') \<noteq> []"
    by (simp add: trim_sample sample_text_nonempty)
  have 7: "generateContent ?env (analysis_request (trim (js_of '' Jane Doe ''))) 1 =
      (Inl api_error, 2)"
    by (simp add: stub_failing_def stub_env_def)
  have m: "message api_error = Str (js_of ''quota exceeded'')" "js_of ''quota exceeded'' \<noteq> []"
    by (simp_all add: api_error_def js_of_def)
  have c: "(case message api_error of
              Str m \<Rightarrow>
                if m = [] then js_of ''An internal server error occurred during analysis.''
                else m
            | _ \<Rightarrow> js_of ''An internal server error occurred during analysis.'') =
           js_of ''quota exceeded''"
    using m by simp
  note concl = remote_failure_is_server_error [OF 1 4 5 6 disjI1 [OF 7], unfolded c]
  from 7 concl show ?thesis by blast
qed

text \<open>
  The claim as stated fails where it says that the message of the failure is relayed:
  when the remote call throws an error with an empty message (\<^verbatim>\<open>new Error()\<close>), the
  \<^verbatim>\<open>error\<close> string of the body is the fixed text, not that message.
\<close>

theorem empty_message_not_relayed_counterexample:
  "message (Error []) = Str [] \<and>
   generateContent (stub_failing (Error [])) (analysis_request (trim (js_of '' Jane Doe ''))) 1 =
     (Inl (Error []), 2) \<and>
   body_field (body (response (fst (post_analyze (stub_failing (Error []))
       (pdf_request sample_bytes) 0)))) (js_of ''error'') =
     Some (JString (js_of ''An internal server error occurred during analysis.'')) \<and>
   body_field (body (response (fst (post_analyze (stub_failing (Error []))
       (pdf_request sample_bytes) 0)))) (js_of ''error'') \<noteq> Some (JString [])"
proof -
  have 1: "message (Error []) = Str []"
    by (simp add: Error_def js_of_def)
  have 2: "generateContent (stub_failing (Error [])) (analysis_request (trim (js_of '' Jane Doe ''))) 1 =
      (Inl (Error []), 2)"
    by (simp add: stub_failing_def stub_env_def)
  have 3: "body_field (body (response (fst (post_analyze (stub_failing (Error []))
       (pdf_request sample_bytes) 0)))) (js_of ''error'') =
     Some (JString (js_of ''An internal server error occurred during analysis.''))"
    by (simp add: stub_failing_run catch_block_response 1)
  from 3 fallback_nonempty
  have 4: "body_field (body (response (fst (post_analyze (stub_failing (Error []))
       (pdf_request sample_bytes) 0)))) (js_of ''error'') \<noteq> Some (JString [])"
    by simp
  from 1 2 3 4 show ?thesis by blast
qed



text \<open>
  C7. The schema sent to the remote model is the one constant \<open>resumeAnalysisSchema\<close>,
  whatever the request, the collaborators and the world: every remote call a request
  makes carries it as \<^verbatim>\<open>responseSchema\<close>. The constant is an object schema declaring
  exactly the properties \<^verbatim>\<open>ats_score\<close> (number), \<^verbatim>\<open>structure\<close> (string),
  \<^verbatim>\<open>format\<close> (string), \<^verbatim>\<open>keywords\<close> (array of strings) and \<^verbatim>\<open>suggestions\<close> (array of
  strings), and its property ordering lists them in that order, \<^verbatim>\<open>ats_score\<close> first.
\<close>

theorem schema_is_fixed_constant:
  "(\<forall>c \<in> set (calls (fst (post_analyze env req w))). \<forall>r. c = GenerateContent r \<longrightarrow>
       responseSchema (config r) = resumeAnalysisSchema) \<and>
   stype resumeAnalysisSchema = OBJECT \<and>
   map (\<lambda>(k, s). (k, stype s, map_option stype (items s))) (properties resumeAnalysisSchema) =
     [(''ats_score'', NUMBER, None), (''structure'', STRING, None), (''format'', STRING, None),
      (''keywords'', ARRAY, Some STRING), (''suggestions'', ARRAY, Some STRING)] \<and>
   propertyOrdering resumeAnalysisSchema =
     [''ats_score'', ''structure'', ''format'', ''keywords'', ''suggestions''] \<and>
   hd (propertyOrdering resumeAnalysisSchema) = ''ats_score''"
proof -
  have "responseSchema (config r) = resumeAnalysisSchema"
    if "GenerateContent r \<in> set (calls (fst (post_analyze env req w)))" for r
    using calls_post_analyze [OF that] by (auto simp add: analysis_request_def)
  then show ?thesis
    by (auto simp add: resumeAnalysisSchema_def)
qed

theorem schema_is_fixed_constant_witness:
  "GenerateContent (analysis_request (js_of ''Jane Doe'')) \<in>
     set (calls (fst (post_analyze (stub_ok (Some (Str (js_of '' Jane Doe ''))))
       (pdf_request sample_bytes) 0))) \<and>
   responseSchema (config (analysis_request (js_of ''Jane Doe''))) = resumeAnalysisSchema"
proof -
  have 1: "GenerateContent (analysis_request (js_of ''Jane Doe'')) \<in>
     set (calls (fst (post_analyze (stub_ok (Some (Str (js_of '' Jane Doe ''))))
       (pdf_request sample_bytes) 0)))"
    by (simp add: stub_ok_run)
  from schema_is_fixed_constant [of "stub_ok (Some (Str (js_of '' Jane Doe '')))"
      "pdf_request sample_bytes" 0]
  have "\<forall>c \<in> set (calls (fst (post_analyze (stub_ok (Some (Str (js_of '' Jane Doe ''))))
       (pdf_request sample_bytes) 0))). \<forall>r. c = GenerateContent r \<longrightarrow>
       responseSchema (config r) = resumeAnalysisSchema"
    by (rule conjunct1)
  with 1 show ?thesis by blast
qed

text \<open>
  C8. For every request sent twice (the same form, so the same file bytes) to a process
  whose extraction and remote-service collaborators are deterministic, the two responses
  are identical, status and body. Nothing is cached: the second request makes exactly the
  collaborator calls the first made, and each is handled as it would be in any other
  world, so as the first request of a fresh process. Both invoke extraction whenever the
  upload gate passes the file on, and both invoke the remote call whenever the extracted
  text is non-empty after trimming; a response with status 200 always comes with an
  extraction call and a remote call of its own.
\<close>

theorem repeated_request_identical_outcome:
  assumes "deterministic env"
      and "serve env [req, req] w = ([out1, out2], w')"
  shows "response out1 = response out2 \<and> calls out1 = calls out2 \<and>
         (\<forall>w0. fst (post_analyze env req w0) = out1 \<and> fst (post_analyze env req w0) = out2) \<and>
         (\<forall>f. upload_single req = Inr (Some f) \<longrightarrow>
            GetText (buffer f) \<in> set (calls out1) \<and> GetText (buffer f) \<in> set (calls out2)) \<and>
         (\<forall>f pdfData s.
            upload_single req = Inr (Some f) \<and> fst (getText env (buffer f) w) = Inr pdfData \<and>
            get_text pdfData = Str s \<and> trim s \<noteq> [] \<longrightarrow>
            GenerateContent (analysis_request (trim s)) \<in> set (calls out1) \<and>
            GenerateContent (analysis_request (trim s)) \<in> set (calls out2)) \<and>
         (status (response out2) = 200 \<longrightarrow>
            list_ex is_extraction (calls out2) \<and> list_ex is_remote (calls out2))"
proof -
  obtain w1 where o1: "post_analyze env req w = (out1, w1)"
    and o2: "post_analyze env req w1 = (out2, w')"
    using assms(2) by (auto split: prod.splits)
  have out1: "out1 = fst (post_analyze env req w)"
    using o1 by simp
  have out2: "out2 = fst (post_analyze env req w1)"
    using o2 by simp
  have fresh1: "fst (post_analyze env req w0) = out1" for w0
    using post_analyze_world_independent [OF assms(1), of req w0 w] out1 by simp
  have fresh2: "fst (post_analyze env req w0) = out2" for w0
    using post_analyze_world_independent [OF assms(1), of req w0 w1] out2 by simp
  have eq: "out2 = out1"
    using fresh1 [of w1] out2 by simp
  have ext: "GetText (buffer f) \<in> set (calls out1)" if "upload_single req = Inr (Some f)" for f
    using that unfolding out1
    by (simp add: post_analyze_def analyze_handler_def call_getText_def call_generateContent_def
        split: prod.splits sum.splits)
  have gen: "GenerateContent (analysis_request (trim s)) \<in> set (calls out1)"
    if "upload_single req = Inr (Some f)" "fst (getText env (buffer f) w) = Inr pdfData"
      "get_text pdfData = Str s" "trim s \<noteq> []" for f pdfData s
    using that unfolding out1
    by (cases "getText env (buffer f) w")
      (simp add: post_analyze_def analyze_handler_def call_getText_def call_generateContent_def
        resume_text_cases split: prod.splits sum.splits)
  have ok: "list_ex is_extraction (calls out2) \<and> list_ex is_remote (calls out2)"
    if "status (response out2) = 200"
    using that success_needs_both_calls [of env req w1] unfolding out2 by simp
  from eq fresh1 fresh2 ext gen ok show ?thesis by blast
qed

theorem repeated_request_identical_outcome_witness:
  "deterministic (stub_ok (Some (Str (js_of '' Jane Doe '')))) \<and>
   serve (stub_ok (Some (Str (js_of '' Jane Doe ''))))
       [pdf_request sample_bytes, pdf_request sample_bytes] 0 =
     ([\<lparr>response = \<lparr>status = 200, body = Json (JObject [(js_of ''analysis'', stub_analysis)])\<rparr>,
        calls = [GetText sample_bytes, GenerateContent (analysis_request (js_of ''Jane Doe''))]\<rparr>,
       \<lparr>response = \<lparr>status = 200, body = Json (JObject [(js_of ''analysis'', stub_analysis)])\<rparr>,
        calls = [GetText sample_bytes, GenerateContent (analysis_request (js_of ''Jane Doe''))]\<rparr>],
      4) \<and>
   GetText (buffer (pdf_file sample_bytes)) \<in>
     set [GetText sample_bytes, GenerateContent (analysis_request (js_of ''Jane Doe''))] \<and>
   GenerateContent (analysis_request (trim (js_of '' Jane Doe ''))) \<in>
     set [GetText sample_bytes, GenerateContent (analysis_request (js_of ''Jane Doe''))] \<and>
   list_ex is_extraction
     [GetText sample_bytes, GenerateContent (analysis_request (js_of ''Jane Doe''))] \<and>
   list_ex is_remote
     [GetText sample_bytes, GenerateContent (analysis_request (js_of ''Jane Doe''))]"
proof -
  let ?env = "stub_ok (Some (Str (js_of '' Jane Doe '')))"
  let ?out = "\<lparr>response = \<lparr>status = 200, body = Json (JObject [(js_of ''analysis'', stub_analysis)])\<rparr>,
        calls = [GetText sample_bytes, GenerateContent (analysis_request (js_of ''Jane Doe''))]\<rparr>"
  have 1: "deterministic ?env"
    unfolding stub_ok_def by (rule stub_deterministic)
  have 2: "serve ?env [pdf_request sample_bytes, pdf_request sample_bytes] 0 = ([?out, ?out], 4)"
    by (simp add: stub_ok_run)
  have 3: "fst (getText ?env (buffer (pdf_file sample_bytes)) 0) =
      Inr \<lparr>text_prop = Some (Str (js_of '' Jane Doe ''))\<rparr>"
    by (simp add: stub_ok_def stub_env_def)
  have 4: "get_text \<lparr>text_prop = Some (Str (js_of '' Jane Doe ''))\<rparr> = Str (js_of '' Jane Doe '')"
    by (simp add: get_text_def)
  have 5: "trim (js_of '' Jane Doe '') \<noteq> []"
    by (simp add: trim_sample sample_text_nonempty)
  have 6: "status (response ?out) = 200"
    by simp
  note concl = repeated_request_identical_outcome [OF 1 2]
  from concl sample_upload have a: "GetText (buffer (pdf_file sample_bytes)) \<in> set (calls ?out)"
    by blast
  from concl sample_upload 3 4 5
  have b: "GenerateContent (analysis_request (trim (js_of '' Jane Doe ''))) \<in> set (calls ?out)"
    by blast
  from concl 6 have c: "list_ex is_extraction (calls ?out) \<and> list_ex is_remote (calls ?out)"
    by blast
  from a have a': "GetText (buffer (pdf_file sample_bytes)) \<in>
      set [GetText sample_bytes, GenerateContent (analysis_request (js_of ''Jane Doe''))]"
    by simp
  from b have b': "GenerateContent (analysis_request (trim (js_of '' Jane Doe ''))) \<in>
      set [GetText sample_bytes, GenerateContent (analysis_request (js_of ''Jane Doe''))]"
    by simp
  from c have c': "list_ex is_extraction
      [GetText sample_bytes, GenerateContent (analysis_request (js_of ''Jane Doe''))] \<and>
    list_ex is_remote
      [GetText sample_bytes, GenerateContent (analysis_request (js_of ''Jane Doe''))]"
    by simp
  from 1 2 a' b' c' show ?thesis by blast
qed

text \<open>
  C9. For every request, if the response body has an \<^verbatim>\<open>analysis\<close> key, then the upload
  was a PDF under the field \<^verbatim>\<open>file\<close>, within the size limit, that the gate passed on,
  extraction returned text that is non-empty after trimming, the
  remote call returned a completion and \<^verbatim>\<open>JSON.parse\<close> accepted its text; the response
  is then the 200 response holding that parsed value. So no failure path produces an
  \<^verbatim>\<open>analysis\<close> key.
\<close>

theorem analysis_only_on_success:
  assumes "js_of ''analysis'' \<in> set (body_keys (body (response (fst (post_analyze env req w)))))"
  shows "\<exists>f pdfData w1 resumeText completion w2 analysis.
           f \<in> set (file_parts req) \<and>
           fieldname f = js_of ''file'' \<and>
           upload_single req = Inr (Some f) \<and>
           mimetype f = js_of ''application/pdf'' \<and>
           length (buffer f) \<le> fileSize \<and>
           getText env (buffer f) w = (Inr pdfData, w1) \<and>
           get_text pdfData = Str resumeText \<and>
           trim resumeText \<noteq> [] \<and>
           generateContent env (analysis_request (trim resumeText)) w1 = (Inr completion, w2) \<and>
           JSON_parse env (completion_text completion) = Inr analysis \<and>
           response (fst (post_analyze env req w)) =
             \<lparr>status = 200, body = Json (JObject [(js_of ''analysis'', analysis)])\<rparr>"
proof (cases "upload_single req")
  case (Inl err)
  with assms show ?thesis
    by (simp add: post_analyze_def default_error_handler_def)
next
  case (Inr file_opt)
  note up = this
  show ?thesis
  proof (cases file_opt)
    case None
    with up assms key_analysis_neq_error show ?thesis
      by (simp add: post_analyze_def analyze_handler_def call_getText_def call_generateContent_def res_json_def)
  next
    case (Some f)
    from up Some have accepted: "upload_single req = Inr (Some f)"
      by simp
    from accepted upload_single_stored [OF accepted]
    have gate: "f \<in> set (file_parts req) \<and> fieldname f = js_of ''file'' \<and>
        upload_single req = Inr (Some f) \<and>
        mimetype f = js_of ''application/pdf'' \<and> length (buffer f) \<le> fileSize"
      by simp
    obtain r1 w1 where ex: "getText env (buffer f) w = (r1, w1)"
      by (cases "getText env (buffer f) w")
    show ?thesis
    proof (cases r1)
      case (Inl e)
      with up Some ex assms key_analysis_neq_error show ?thesis
        by (simp add: post_analyze_def analyze_handler_def call_getText_def call_generateContent_def catch_block_response)
    next
      case (Inr pdfData)
      note pd = this
      show ?thesis
      proof (cases "get_text pdfData")
        case Undefined
        with up Some ex pd assms key_analysis_neq_error show ?thesis
          by (simp add: post_analyze_def analyze_handler_def call_getText_def call_generateContent_def resume_text_cases res_json_def)
      next
        case Null
        with up Some ex pd assms key_analysis_neq_error show ?thesis
          by (simp add: post_analyze_def analyze_handler_def call_getText_def call_generateContent_def resume_text_cases res_json_def)
      next
        case (Str s)
        note str = this
        show ?thesis
        proof (cases "trim s = []")
          case True
          with up Some ex pd str assms key_analysis_neq_error show ?thesis
            by (simp add: post_analyze_def analyze_handler_def call_getText_def call_generateContent_def resume_text_cases res_json_def)
        next
          case False
          obtain r2 w2 where gen: "generateContent env (analysis_request (trim s)) w1 = (r2, w2)"
            by (cases "generateContent env (analysis_request (trim s)) w1")
          show ?thesis
          proof (cases r2)
            case (Inl e)
            with up Some ex pd str False gen assms key_analysis_neq_error show ?thesis
              by (simp add: post_analyze_def analyze_handler_def call_getText_def call_generateContent_def resume_text_cases
                  catch_block_response)
          next
            case (Inr completion)
            note comp = this
            show ?thesis
            proof (cases "JSON_parse env (completion_text completion)")
              case (Inl e)
              with up Some ex pd str False gen comp assms key_analysis_neq_error show ?thesis
                by (simp add: post_analyze_def analyze_handler_def call_getText_def call_generateContent_def resume_text_cases
                    catch_block_response)
            next
              case (Inr analysis)
              with up Some ex pd str False gen comp gate show ?thesis
                by (simp add: post_analyze_def analyze_handler_def call_getText_def call_generateContent_def resume_text_cases res_json_def)
            qed
          qed
        qed
      qed
    qed
  qed
qed

theorem analysis_only_on_success_witness:
  "js_of ''analysis'' \<in>
     set (body_keys (body (response (fst (post_analyze (stub_ok (Some (Str (js_of '' Jane Doe ''))))
       (pdf_request sample_bytes) 0))))) \<and>
   (\<exists>f pdfData w1 resumeText completion w2 analysis.
      f \<in> set (file_parts (pdf_request sample_bytes)) \<and>
      fieldname f = js_of ''file'' \<and>
      upload_single (pdf_request sample_bytes) = Inr (Some f) \<and>
      mimetype f = js_of ''application/pdf'' \<and>
      length (buffer f) \<le> fileSize \<and>
      getText (stub_ok (Some (Str (js_of '' Jane Doe '')))) (buffer f) 0 = (Inr pdfData, w1) \<and>
      get_text pdfData = Str resumeText \<and>
      trim resumeText \<noteq> [] \<and>
      generateContent (stub_ok (Some (Str (js_of '' Jane Doe ''))))
          (analysis_request (trim resumeText)) w1 = (Inr completion, w2) \<and>
      JSON_parse (stub_ok (Some (Str (js_of '' Jane Doe '')))) (completion_text completion) =
        Inr analysis \<and>
      response (fst (post_analyze (stub_ok (Some (Str (js_of '' Jane Doe ''))))
          (pdf_request sample_bytes) 0)) =
        \<lparr>status = 200, body = Json (JObject [(js_of ''analysis'', analysis)])\<rparr>)"
proof -
  have 1: "js_of ''analysis'' \<in>
     set (body_keys (body (response (fst (post_analyze (stub_ok (Some (Str (js_of '' Jane Doe ''))))
       (pdf_request sample_bytes) 0)))))"
    by (simp add: stub_ok_run)
  from 1 analysis_only_on_success [OF 1] show ?thesis by (rule conjI)
qed

text \<open>
  C10. For every request with a PDF passed on by the upload gate for which extraction
  resolves with a result
  whose \<^verbatim>\<open>text\<close> property is absent, \<^verbatim>\<open>null\<close> or \<^verbatim>\<open>undefined\<close>, the handler takes
  the text to be the empty string and answers with the 400 no-readable-text response;
  it does not throw into the 500 branch, and it makes no remote call.
\<close>

theorem missing_text_is_no_readable_text:
  assumes "upload_single req = Inr (Some f)"
      and "getText env (buffer f) w = (Inr pdfData, w1)"
      and "text_prop pdfData = None \<or> text_prop pdfData = Some Null \<or>
           text_prop pdfData = Some Undefined"
  shows "post_analyze env req w =
           (\<lparr>response = \<lparr>status = 400,
                body = Json (JObject [(js_of ''error'',
                  JString (js_of ''No readable text found in PDF (the file might be an image scan).''))])\<rparr>,
             calls = [GetText (buffer f)]\<rparr>, w1)"
  using assms
  by (auto simp add: post_analyze_def analyze_handler_def call_getText_def call_generateContent_def get_text_def
      js_or_def trim_def res_json_def)

theorem missing_text_is_no_readable_text_witness:
  "getText (stub_ok None) (buffer (pdf_file sample_bytes)) 0 = (Inr \<lparr>text_prop = None\<rparr>, 1) \<and>
   getText (stub_ok (Some Null)) (buffer (pdf_file sample_bytes)) 0 =
     (Inr \<lparr>text_prop = Some Null\<rparr>, 1) \<and>
   post_analyze (stub_ok None) (pdf_request sample_bytes) 0 =
     (\<lparr>response = \<lparr>status = 400,
          body = Json (JObject [(js_of ''error'',
            JString (js_of ''No readable text found in PDF (the file might be an image scan).''))])\<rparr>,
       calls = [GetText (buffer (pdf_file sample_bytes))]\<rparr>, 1) \<and>
   post_analyze (stub_ok (Some Null)) (pdf_request sample_bytes) 0 =
     (\<lparr>response = \<lparr>status = 400,
          body = Json (JObject [(js_of ''error'',
            JString (js_of ''No readable text found in PDF (the file might be an image scan).''))])\<rparr>,
       calls = [GetText (buffer (pdf_file sample_bytes))]\<rparr>, 1)"
proof -
  note 1 = sample_upload
  have 4: "getText (stub_ok t) (buffer (pdf_file sample_bytes)) 0 = (Inr \<lparr>text_prop = t\<rparr>, 1)" for t
    by (simp add: stub_ok_def stub_env_def)
  have 5: "text_prop \<lparr>text_prop = None\<rparr> = None \<or> text_prop \<lparr>text_prop = None\<rparr> = Some Null \<or>
      text_prop \<lparr>text_prop = None\<rparr> = Some Undefined"
    by simp
  have 6: "text_prop \<lparr>text_prop = Some Null\<rparr> = None \<or>
      text_prop \<lparr>text_prop = Some Null\<rparr> = Some Null \<or>
      text_prop \<lparr>text_prop = Some Null\<rparr> = Some Undefined"
    by simp
  note a = missing_text_is_no_readable_text [OF 1 4 [of None] 5]
  note b = missing_text_is_no_readable_text [OF 1 4 [of "Some Null"] 6]
  from 4 [of None] 4 [of "Some Null"] a b show ?thesis by blast
qed

end
